theory Spec2Isabelle
  imports Main "HOL-Library.Sublist"
begin

section \<open>Python values and strings\<close>

text \<open>
  The script \<^verbatim>\<open>pilot/scripts/stagein.py\<close> is Python. A string is a \<open>string\<close>; one
  \<open>char\<close> stands for one code point below 256, which is where the character classes below
  are exact for Python 3. Lists that the script fills with values of several types (booleans,
  \<^verbatim>\<open>None\<close>, strings, integers) are lists of \<open>pyval\<close>.
\<close>

datatype pyval = PNone | PBool bool | PInt int | PStr string

datatype pyexn = ValueError | AttributeError

text \<open>Truth value of an object, as \<^verbatim>\<open>if x:\<close> tests it.\<close>

fun truthy :: "pyval \<Rightarrow> bool" where
  "truthy PNone = False"
| "truthy (PBool b) = b"
| "truthy (PInt n) = (n \<noteq> 0)"
| "truthy (PStr s) = (s \<noteq> [])"

text \<open>\<^verbatim>\<open>str.isspace\<close> on one character: the set \<^verbatim>\<open>str.strip()\<close> removes.\<close>

definition py_isspace :: "char \<Rightarrow> bool" where
  "py_isspace c = (of_char c \<in> set [9, 10, 11, 12, 13, 28, 29, 30, 31, 32, 133, 160 :: nat])"

text \<open>The characters \<^verbatim>\<open>int()\<close> skips around a number.\<close>

definition int_space :: "char \<Rightarrow> bool" where
  "int_space c = (of_char c \<in> set [9, 10, 11, 12, 13, 32, 133, 160 :: nat])"

text \<open>The class \<^verbatim>\<open>\d\<close> of \<^verbatim>\<open>re\<close>, and a decimal digit of \<^verbatim>\<open>int()\<close>.\<close>

definition is_digit :: "char \<Rightarrow> bool" where
  "is_digit c = (48 \<le> (of_char c :: nat) \<and> (of_char c :: nat) \<le> 57)"

definition digit_val :: "char \<Rightarrow> int" where
  "digit_val c = int (of_char c) - 48"

definition strip_with :: "(char \<Rightarrow> bool) \<Rightarrow> string \<Rightarrow> string" where
  "strip_with sp s = rev (dropWhile sp (rev (dropWhile sp s)))"

text \<open>\<^verbatim>\<open>s.strip()\<close>\<close>

definition py_strip :: "string \<Rightarrow> string" where
  "py_strip s = strip_with py_isspace s"

text \<open>\<^verbatim>\<open>s.split(sep)\<close> for a separator of one character: never an empty list.\<close>

fun py_split :: "char \<Rightarrow> string \<Rightarrow> string list" where
  "py_split sep [] = [[]]"
| "py_split sep (c # cs) =
     (if c = sep then [] # py_split sep cs
      else (case py_split sep cs of
              [] \<Rightarrow> [[c]]
            | w # ws \<Rightarrow> (c # w) # ws))"

text \<open>
  \<^verbatim>\<open>s.replace(old, new)\<close>: every occurrence of \<open>old\<close>, left to right, without overlap.
  For the empty \<open>old\<close> Python puts \<open>new\<close> before every character and at the end.
\<close>

function py_replace :: "string \<Rightarrow> string \<Rightarrow> string \<Rightarrow> string" where
  "py_replace old new [] = (if old = [] then new else [])"
| "py_replace old new (c # cs) =
     (if old = [] then new @ c # py_replace old new cs
      else if prefix old (c # cs) then new @ py_replace old new (drop (length old) (c # cs))
      else c # py_replace old new cs)"
  by pat_completeness auto
termination
  by (relation "measure (\<lambda>(old, new, s). length s)") auto

text \<open>
  \<^verbatim>\<open>int(x)\<close> for a string, base 10: optional white space around, an optional sign, then
  digits, where single underscores may stand between digits. Anything else raises
  \<^verbatim>\<open>ValueError\<close>. The flag of \<open>scan_digits\<close> says that the previous character was a digit.
  This is the grammar of the language; the limit an interpreter may set on the number of
  digits (\<^verbatim>\<open>sys.set_int_max_str_digits\<close>) is left out.
\<close>

fun scan_digits :: "string \<Rightarrow> bool \<Rightarrow> int \<Rightarrow> int option" where
  "scan_digits [] prev_digit acc = (if prev_digit then Some acc else None)"
| "scan_digits (c # cs) prev_digit acc =
     (if is_digit c then scan_digits cs True (10 * acc + digit_val c)
      else if c = CHR ''_'' \<and> prev_digit then scan_digits cs False acc
      else None)"

definition py_int :: "string \<Rightarrow> pyexn + int" where
  "py_int x =
     (let t = strip_with int_space x;
          neg = (t \<noteq> [] \<and> hd t = CHR ''-'');
          body = (if t \<noteq> [] \<and> (hd t = CHR ''-'' \<or> hd t = CHR ''+'') then tl t else t)
      in case scan_digits body False 0 of
           None \<Rightarrow> Inl ValueError
         | Some n \<Rightarrow> Inr (if neg then - n else n))"

section \<open>List coercions\<close>

text \<open>
  \<^verbatim>\<open>str_to_int_list\<close>: the loop appends, for each element, \<^verbatim>\<open>int(x)\<close> or, when
  that raises, \<^verbatim>\<open>None\<close>.
\<close>

fun str_to_int_list_loop :: "string list \<Rightarrow> int option list \<Rightarrow> int option list" where
  "str_to_int_list_loop [] new_list = new_list"
| "str_to_int_list_loop (x # xs) new_list =
     (let x' = (case py_int x of Inl e \<Rightarrow> None | Inr n \<Rightarrow> Some n)
      in str_to_int_list_loop xs (new_list @ [x']))"

definition str_to_int_list :: "string list \<Rightarrow> int option list" where
  "str_to_int_list xs = str_to_int_list_loop xs []"

text \<open>\<^verbatim>\<open>d.get(k, default)\<close> on a dictionary written as a list of pairs.\<close>

definition dict_get :: "('k \<times> 'v) list \<Rightarrow> 'k \<Rightarrow> 'v \<Rightarrow> 'v" where
  "dict_get d k dflt = (case map_of d k of None \<Rightarrow> dflt | Some v \<Rightarrow> v)"

definition changes :: "(pyval \<times> pyval) list" where
  "changes = [(PStr ''True'', PBool True), (PStr ''False'', PBool False),
              (PStr ''None'', PNone), (PStr ''NULL'', PNone)]"

definition str_to_bool_list :: "pyval list \<Rightarrow> pyval list" where
  "str_to_bool_list xs = map (\<lambda>x. dict_get changes x x) xs"

section \<open>Error extraction\<close>

text \<open>
  \<^verbatim>\<open>re.search(lit + '(' + cls + '+)', s)\<close>, group 1: the leftmost place where the literal
  \<open>lit\<close> is followed by at least one character of the class; the group is the longest
  run of such characters there. \<open>None\<close> when there is no such place.
\<close>

fun re_search_group :: "string \<Rightarrow> (char \<Rightarrow> bool) \<Rightarrow> string \<Rightarrow> string option" where
  "re_search_group lit cls [] = None"
| "re_search_group lit cls (c # cs) =
     (if prefix lit (c # cs) \<and> takeWhile cls (drop (length lit) (c # cs)) \<noteq> []
      then Some (takeWhile cls (drop (length lit) (c # cs)))
      else re_search_group lit cls cs)"

text \<open>The class \<^verbatim>\<open>.\<close>: every character but the line feed.\<close>

definition re_dot :: "char \<Rightarrow> bool" where
  "re_dot c = (c \<noteq> CHR 0x0A)"

text \<open>
  \<^verbatim>\<open>extract_error_info\<close>: the code is the integer 0 or the matched digits as a string,
  the message the empty string or the rest of the line after \<^verbatim>\<open>details: \<close> with
  every \<^verbatim>\<open>[PilotException(\<close> taken out and the ends stripped.
\<close>

definition extract_error_info :: "string \<Rightarrow> pyval \<times> string" where
  "extract_error_info err =
     (let error_code = (case re_search_group ''error code: '' is_digit err of
                          None \<Rightarrow> PInt 0
                        | Some g \<Rightarrow> PStr g);
          error_message = (case re_search_group ''details: '' re_dot err of
                             None \<Rightarrow> []
                           | Some g \<Rightarrow> py_strip (py_replace ''[PilotException('' [] g))
      in (error_code, error_message))"

section \<open>The status dictionary\<close>

text \<open>
  A \<^verbatim>\<open>dict\<close> is a list of key-value pairs in insertion order. \<^verbatim>\<open>d[k] = v\<close> replaces
  the value of a key that is there, in its place, and appends a key that is not.
\<close>

primrec dict_setitem :: "('k \<times> 'v) list \<Rightarrow> 'k \<Rightarrow> 'v \<Rightarrow> ('k \<times> 'v) list" where
  "dict_setitem [] k v = [(k, v)]"
| "dict_setitem (p # ps) k v =
     (if fst p = k then (fst p, v) # ps else p # dict_setitem ps k v)"

type_synonym dictionary = "(string \<times> pyval list) list"

definition add_to_dictionary ::
  "dictionary \<Rightarrow> string \<Rightarrow> pyval \<Rightarrow> pyval \<Rightarrow> pyval \<Rightarrow> dictionary" where
  "add_to_dictionary dictionary key value1 value2 value3 =
     dict_setitem dictionary key [value1, value2, value3]"

text \<open>The number of entries of a dictionary under one key.\<close>

definition key_count :: "('k \<times> 'v) list \<Rightarrow> 'k \<Rightarrow> nat" where
  "key_count d k = length (filter (\<lambda>p. fst p = k) d)"

section \<open>Transfer descriptors\<close>

text \<open>
  The dictionary the script builds for one file (\<^verbatim>\<open>files = [{...}]\<close>), with its
  thirteen keys.
\<close>

record file_kwargs =
  scope :: string
  lfn :: string
  workdir :: string
  filesize :: "int option"
  checksum :: string
  allow_lan :: pyval
  allow_wan :: pyval
  direct_access_lan :: pyval
  guid :: string
  direct_access_wan :: pyval
  is_tar :: pyval
  accessmode :: string
  storage_token :: string

text \<open>
  Modelled from the spec: the class \<^verbatim>\<open>FileSpec\<close> of \<^verbatim>\<open>pilot.info\<close> is not part of
  the sources at hand. A descriptor carries the keyword arguments it was built from and
  the type discriminator, and the three outcome fields \<^verbatim>\<open>status\<close>,
  \<^verbatim>\<open>status_code\<close> and \<^verbatim>\<open>turl\<close>, absent (\<^verbatim>\<open>None\<close>) until the transfer fills them.
\<close>

record FileSpec = file_kwargs +
  ftype :: string
  status :: pyval
  status_code :: pyval
  turl :: pyval

definition FileSpec_init :: "string \<Rightarrow> file_kwargs \<Rightarrow> FileSpec" where
  "FileSpec_init ty f =
     \<lparr>scope = scope f, lfn = lfn f, workdir = workdir f, filesize = filesize f,
      checksum = checksum f, allow_lan = allow_lan f, allow_wan = allow_wan f,
      direct_access_lan = direct_access_lan f, guid = guid f,
      direct_access_wan = direct_access_wan f, is_tar = is_tar f,
      accessmode = accessmode f, storage_token = storage_token f,
      ftype = ty, status = PNone, status_code = PNone, turl = PNone\<rparr>"

section \<open>Log lines\<close>

text \<open>
  One constructor for each call of \<^verbatim>\<open>message\<close>, carrying the values the line is
  formatted from.
\<close>

datatype log_event =
    Exception_caught pyexn
  | List_dump string "pyval list"
  | Lists_not_same_length nat nat
  | Info_exception string
  | Files_dump file_kwargs
  | Transfer_exception string
  | Summary_header
  | Summary_line string pyval pyval
  | Transfers_failed string
  | Wrote string
  | Transfers_finished

section \<open>Reconciling the input lists\<close>

record file_lists =
  lfns :: "string list"
  scopes :: "string list"
  filesizes :: "int option list"
  checksums :: "string list"
  allowlans :: "pyval list"
  allowwans :: "pyval list"
  directaccesslans :: "pyval list"
  directaccesswans :: "pyval list"
  istars :: "pyval list"
  accessmodes :: "string list"
  storagetokens :: "string list"
  guids :: "string list"

definition empty_file_lists :: file_lists where
  "empty_file_lists =
     \<lparr>lfns = [], scopes = [], filesizes = [], checksums = [], allowlans = [],
      allowwans = [], directaccesslans = [], directaccesswans = [], istars = [],
      accessmodes = [], storagetokens = [], guids = []\<rparr>"

text \<open>
  An argument of \<^verbatim>\<open>get_file_lists\<close> is a string, or an object without \<^verbatim>\<open>split\<close>
  such as \<^verbatim>\<open>None\<close>, on which \<^verbatim>\<open>x.split(',')\<close> raises.
\<close>

definition split_arg :: "string option \<Rightarrow> pyexn + string list" where
  "split_arg x = (case x of None \<Rightarrow> Inl AttributeError | Some s \<Rightarrow> Inr (py_split CHR '','' s))"

text \<open>
  The body of a \<^verbatim>\<open>try\<close>: statements run in order on the local variables; the first
  one that raises ends the body, and the variables keep what was assigned before.
\<close>

fun run_try :: "('s \<Rightarrow> pyexn + 's) list \<Rightarrow> 's \<Rightarrow> 's \<times> pyexn option" where
  "run_try [] s = (s, None)"
| "run_try (stmt # stmts) s =
     (case stmt s of Inl e \<Rightarrow> (s, Some e) | Inr s' \<Rightarrow> run_try stmts s')"

definition assign :: "(pyexn + 'a) \<Rightarrow> ('a \<Rightarrow> 's) \<Rightarrow> pyexn + 's" where
  "assign rhs store = (case rhs of Inl e \<Rightarrow> Inl e | Inr v \<Rightarrow> Inr (store v))"

definition int_vals :: "int option list \<Rightarrow> pyval list" where
  "int_vals xs = map (\<lambda>x. case x of None \<Rightarrow> PNone | Some n \<Rightarrow> PInt n) xs"

definition get_file_lists ::
  "string option \<Rightarrow> string option \<Rightarrow> string option \<Rightarrow> string option \<Rightarrow>
   string option \<Rightarrow> string option \<Rightarrow> string option \<Rightarrow> string option \<Rightarrow>
   string option \<Rightarrow> string option \<Rightarrow> string option \<Rightarrow> string option \<Rightarrow>
   file_lists \<times> log_event list" where
  "get_file_lists a_lfns a_scopes a_filesizes a_checksums a_allowlans a_allowwans
      a_directaccesslans a_directaccesswans a_istars a_accessmodes a_storagetokens a_guids =
     (let (r, raised) = run_try
            [\<lambda>r. assign (split_arg a_lfns) (\<lambda>v. r\<lparr>lfns := v\<rparr>),
             \<lambda>r. assign (split_arg a_scopes) (\<lambda>v. r\<lparr>scopes := v\<rparr>),
             \<lambda>r. assign (split_arg a_filesizes) (\<lambda>v. r\<lparr>filesizes := str_to_int_list v\<rparr>),
             \<lambda>r. assign (split_arg a_checksums) (\<lambda>v. r\<lparr>checksums := v\<rparr>),
             \<lambda>r. assign (split_arg a_allowlans)
                    (\<lambda>v. r\<lparr>allowlans := str_to_bool_list (map PStr v)\<rparr>),
             \<lambda>r. assign (split_arg a_allowwans)
                    (\<lambda>v. r\<lparr>allowwans := str_to_bool_list (map PStr v)\<rparr>),
             \<lambda>r. assign (split_arg a_directaccesslans)
                    (\<lambda>v. r\<lparr>directaccesslans := str_to_bool_list (map PStr v)\<rparr>),
             \<lambda>r. assign (split_arg a_directaccesswans)
                    (\<lambda>v. r\<lparr>directaccesswans := str_to_bool_list (map PStr v)\<rparr>),
             \<lambda>r. assign (split_arg a_istars)
                    (\<lambda>v. r\<lparr>istars := str_to_bool_list (map PStr v)\<rparr>),
             \<lambda>r. assign (split_arg a_accessmodes) (\<lambda>v. r\<lparr>accessmodes := v\<rparr>),
             \<lambda>r. assign (split_arg a_storagetokens) (\<lambda>v. r\<lparr>storagetokens := v\<rparr>),
             \<lambda>r. assign (split_arg a_guids) (\<lambda>v. r\<lparr>guids := v\<rparr>)]
            empty_file_lists
      in (r,
          (case raised of None \<Rightarrow> [] | Some e \<Rightarrow> [Exception_caught e]) @
          [List_dump ''lfns'' (map PStr (lfns r)),
           List_dump ''filesizes'' (int_vals (filesizes r)),
           List_dump ''checksums'' (map PStr (checksums r)),
           List_dump ''allowlans'' (allowlans r),
           List_dump ''allowwans'' (allowwans r),
           List_dump ''directaccesslans'' (directaccesslans r),
           List_dump ''directaccesswans'' (directaccesswans r),
           List_dump ''istars'' (istars r),
           List_dump ''accessmodes'' (map PStr (accessmodes r)),
           List_dump ''storagetokens'' (map PStr (storagetokens r)),
           List_dump ''guids'' (map PStr (guids r))]))"

section \<open>Building the descriptors\<close>

text \<open>
  The loop over \<^verbatim>\<open>zip\<close> of the twelve lists: one dictionary of keyword arguments for
  each position that all twelve lists have, and one \<^verbatim>\<open>FileSpec(type='input', **f)\<close>
  from it.
\<close>

definition zip12 :: "file_lists \<Rightarrow>
  (string \<times> string \<times> int option \<times> string \<times> pyval \<times> pyval \<times> pyval \<times> pyval \<times> pyval \<times>
   string \<times> string \<times> string) list" where
  "zip12 fl =
     zip (lfns fl) (zip (scopes fl) (zip (filesizes fl) (zip (checksums fl)
       (zip (allowlans fl) (zip (allowwans fl) (zip (directaccesslans fl)
         (zip (directaccesswans fl) (zip (istars fl) (zip (accessmodes fl)
           (zip (storagetokens fl) (guids fl)))))))))))"

definition build_files :: "string \<Rightarrow> file_lists \<Rightarrow> file_kwargs list" where
  "build_files wd fl =
     map (\<lambda>(lfn', scope', filesize', checksum', allowlan, allowwan, dalan, dawan, istar,
            accessmode', sttoken, guid').
            \<lparr>scope = scope', lfn = lfn', workdir = wd, filesize = filesize',
             checksum = checksum', allow_lan = allowlan, allow_wan = allowwan,
             direct_access_lan = dalan, guid = guid', direct_access_wan = dawan,
             is_tar = istar, accessmode = accessmode', storage_token = sttoken\<rparr>)
         (zip12 fl)"

definition build_xfiles :: "string \<Rightarrow> file_lists \<Rightarrow> FileSpec list" where
  "build_xfiles wd fl = map (FileSpec_init ''input'') (build_files wd fl)"

section \<open>The main program\<close>

text \<open>The command line, as far as the pipeline reads it; \<^verbatim>\<open>argparse\<close> delivers strings
  and, for the two flags with \<^verbatim>\<open>type=str2bool\<close>, booleans.\<close>

record args =
  arg_workdir :: string
  arg_scopes :: string
  arg_lfns :: string
  arg_eventservicemerge :: bool
  arg_usepcache :: bool
  arg_filesizes :: string
  arg_checksums :: string
  arg_allowlans :: string
  arg_allowwans :: string
  arg_directaccesslans :: string
  arg_directaccesswans :: string
  arg_istars :: string
  arg_accessmodes :: string
  arg_storagetokens :: string
  arg_guids :: string

text \<open>The keyword arguments of the call of \<^verbatim>\<open>client.transfer\<close>.\<close>

record transfer_kwargs =
  kw_workdir :: string
  kw_cwd :: string
  kw_usecontainer :: bool
  kw_use_pcache :: bool
  kw_use_bulk :: bool

text \<open>
  A transfer backend is outside the script. A call receives the descriptors, the activity
  and the keyword arguments; it leaves the descriptors as it has changed them and either
  returns or raises an exception, of which the script reads \<^verbatim>\<open>str(e)\<close>.
\<close>

type_synonym backend =
  "FileSpec list \<Rightarrow> string \<Rightarrow> transfer_kwargs \<Rightarrow> FileSpec list \<times> string option"

text \<open>
  What the run finds around it: the file name \<^verbatim>\<open>config.Container.stagein_dictionary\<close>,
  the exception, if any, that the initialisation of the info service raises (the script
  prints it and goes on), and the \<^verbatim>\<open>transfer\<close> methods of the two clients. The other
  collaborators (logging, trace report, the constructors of the clients, \<^verbatim>\<open>write_json\<close>)
  are taken to return.
\<close>

record world =
  stagein_dictionary :: string
  infoservice_exception :: "string option"
  StageInESClient_transfer :: backend
  StageInClient_transfer :: backend

text \<open>\<^verbatim>\<open>os.path.join(a, b)\<close> on POSIX.\<close>

definition os_path_join :: "string \<Rightarrow> string \<Rightarrow> string" where
  "os_path_join a b =
     (if prefix ''/'' b then b
      else if a = [] \<or> last a = CHR ''/'' then a @ b
      else a @ ''/'' @ b)"

text \<open>The lists the main program gets from \<^verbatim>\<open>get_file_lists\<close>, with the log lines.\<close>

definition file_lists_of :: "args \<Rightarrow> file_lists \<times> log_event list" where
  "file_lists_of a =
     get_file_lists (Some (arg_lfns a)) (Some (arg_scopes a)) (Some (arg_filesizes a))
       (Some (arg_checksums a)) (Some (arg_allowlans a)) (Some (arg_allowwans a))
       (Some (arg_directaccesslans a)) (Some (arg_directaccesswans a)) (Some (arg_istars a))
       (Some (arg_accessmodes a)) (Some (arg_storagetokens a)) (Some (arg_guids a))"

text \<open>The descriptors before the transfer.\<close>

definition descriptors :: "args \<Rightarrow> FileSpec list" where
  "descriptors a = build_xfiles (arg_workdir a) (fst (file_lists_of a))"

text \<open>The one call of \<^verbatim>\<open>client.transfer\<close>: the descriptors after it, and the message of
  the exception when it raised.\<close>

definition dispatch :: "world \<Rightarrow> args \<Rightarrow> FileSpec list \<times> string option" where
  "dispatch w a =
     (let client_transfer = (if arg_eventservicemerge a then StageInESClient_transfer w
                             else StageInClient_transfer w);
          activity = (if arg_eventservicemerge a then ''es_events_read'' else ''pr'');
          kwargs = \<lparr>kw_workdir = arg_workdir a, kw_cwd = arg_workdir a,
                    kw_usecontainer = False, kw_use_pcache = arg_usepcache a,
                    kw_use_bulk = False\<rparr>
      in client_transfer (descriptors a) activity kwargs)"

text \<open>The loop that puts one entry for each descriptor into the dictionary.\<close>

fun fill_dictionary :: "FileSpec list \<Rightarrow> dictionary \<Rightarrow> dictionary" where
  "fill_dictionary [] d = d"
| "fill_dictionary (fspec # rest) d =
     fill_dictionary rest
       (add_to_dictionary d (lfn fspec) (status fspec) (status_code fspec) (turl fspec))"

definition summary_line :: "FileSpec \<Rightarrow> log_event" where
  "summary_line fspec =
     Summary_line (lfn fspec) (status_code fspec)
       (if truthy (status fspec) then status fspec else PStr ''(not transferred)'')"

text \<open>The error message and code as they stand when the dictionary gets its \<^verbatim>\<open>error\<close>
  entry: those of the start, or \<^verbatim>\<open>str(e)\<close> and \<open>-1\<close>, run through
  \<^verbatim>\<open>extract_error_info\<close> when the message is not empty.\<close>

definition final_error :: "string option \<Rightarrow> pyval \<times> string" where
  "final_error raised =
     (let err = (case raised of None \<Rightarrow> [] | Some e \<Rightarrow> e);
          errcode = (case raised of None \<Rightarrow> PInt 0 | Some e \<Rightarrow> PInt (- 1))
      in if err \<noteq> [] then extract_error_info err else (errcode, err))"

definition TRANSFER_ERROR :: int where
  "TRANSFER_ERROR = 12"

text \<open>What a run leaves: the log, the descriptors and the dictionary at the end, the calls
  of \<^verbatim>\<open>write_json\<close> (path and content), and the exit code.\<close>

record outcome =
  out_log :: "log_event list"
  out_xfiles :: "FileSpec list"
  out_dictionary :: dictionary
  out_written :: "(string \<times> dictionary) list"
  out_exit_code :: int

definition main :: "world \<Rightarrow> args \<Rightarrow> outcome" where
  "main w a =
     (let (fl, log_lists) = file_lists_of a;
          log_len = (if length (lfns fl) \<noteq> length (scopes fl)
                     then [Lists_not_same_length (length (lfns fl)) (length (scopes fl))]
                     else []);
          log_info = (case infoservice_exception w of None \<Rightarrow> [] | Some e \<Rightarrow> [Info_exception e]);
          log_files = map Files_dump (build_files (arg_workdir a) fl);
          (xfiles, raised) = dispatch w a;
          log_transfer = (case raised of None \<Rightarrow> [] | Some e \<Rightarrow> [Transfer_exception e]);
          file_dictionary = (if xfiles \<noteq> [] then fill_dictionary xfiles [] else []);
          log_summary = (if xfiles \<noteq> [] then Summary_header # map summary_line xfiles else []);
          (errcode, err) = final_error raised;
          file_dictionary' = add_to_dictionary file_dictionary ''error'' (PStr err) errcode PNone;
          path = os_path_join (arg_workdir a) (stagein_dictionary w);
          log_before = log_lists @ log_len @ log_info @ log_files @ log_transfer @ log_summary
      in if err \<noteq> []
         then \<lparr>out_log = log_before @ [Transfers_failed err],
               out_xfiles = xfiles,
               out_dictionary = file_dictionary',
               out_written = [(path, file_dictionary')],
               out_exit_code = TRANSFER_ERROR\<rparr>
         else \<lparr>out_log = log_before @ [Wrote path, Transfers_finished],
               out_xfiles = xfiles,
               out_dictionary = file_dictionary',
               out_written = [(path, file_dictionary')],
               out_exit_code = 0\<rparr>)"

section \<open>Notions used to state the properties\<close>

text \<open>The lines of the log that report two lists of different length.\<close>

fun is_length_mismatch :: "log_event \<Rightarrow> bool" where
  "is_length_mismatch (Lists_not_same_length m n) = True"
| "is_length_mismatch e = False"

text \<open>All of the given arguments are strings; and the list an argument splits into, empty
  for an argument that is no string.\<close>

definition present :: "string option list \<Rightarrow> bool" where
  "present xs = list_all (\<lambda>x. x \<noteq> None) xs"

definition strs :: "string option \<Rightarrow> string list" where
  "strs x = (case x of None \<Rightarrow> [] | Some s \<Rightarrow> py_split CHR '','' s)"

subsection \<open>Example runs\<close>

text \<open>A backend that marks every descriptor as done, with the guid as transfer URL, and
  one that changes nothing and raises with a given message.\<close>

definition transfer_done :: backend where
  "transfer_done xs activity kwargs =
     (map (\<lambda>f. f\<lparr>status := PStr ''done'', status_code := PInt 0, turl := PStr (guid f)\<rparr>) xs,
      None)"

definition transfer_raising :: "string \<Rightarrow> backend" where
  "transfer_raising msg xs activity kwargs = (xs, Some msg)"

definition world_with :: "backend \<Rightarrow> world" where
  "world_with b =
     \<lparr>stagein_dictionary = ''stagein_dictionary.json'', infoservice_exception = None,
      StageInESClient_transfer = b, StageInClient_transfer = b\<rparr>"

text \<open>Two files; all lists have two elements.\<close>

definition two_files :: args where
  "two_files =
     \<lparr>arg_workdir = ''/srv/job'', arg_scopes = ''mc16,mc16'', arg_lfns = ''f1,f2'',
      arg_eventservicemerge = False, arg_usepcache = False, arg_filesizes = ''10,x'',
      arg_checksums = ''ad:1,ad:2'', arg_allowlans = ''True,False'',
      arg_allowwans = ''False,None'', arg_directaccesslans = ''False,False'',
      arg_directaccesswans = ''False,maybe'', arg_istars = ''False,False'',
      arg_accessmodes = ''copy,direct'', arg_storagetokens = ''t1,t2'',
      arg_guids = ''g1,g2''\<rparr>"

section \<open>Properties of the list coercions\<close>

lemma str_to_int_list_loop_eq:
  "str_to_int_list_loop xs acc =
     acc @ map (\<lambda>x. case py_int x of Inl e \<Rightarrow> None | Inr n \<Rightarrow> Some n) xs"
  by (induction xs arbitrary: acc) simp_all

lemma changes_get:
  "dict_get changes x x =
     (if x = PStr ''True'' then PBool True
      else if x = PStr ''False'' then PBool False
      else if x = PStr ''None'' \<or> x = PStr ''NULL'' then PNone
      else x)"
  by (simp add: dict_get_def changes_def)

lemma changes_get_idem: "dict_get changes (dict_get changes x x) (dict_get changes x x) = dict_get changes x x"
  by (simp add: changes_get)

text \<open>
  Claim C9. \<^verbatim>\<open>str_to_int_list\<close> returns, for every list of strings, a list of the same
  length; its element at each position is the integer \<^verbatim>\<open>int()\<close> gives for the input
  element when \<^verbatim>\<open>int()\<close> accepts it, and \<^verbatim>\<open>None\<close> when \<^verbatim>\<open>int()\<close> raises. No
  exception leaves the function: the model is total.
\<close>

theorem str_to_int_list_total:
  "length (str_to_int_list xs) = length xs \<and>
   str_to_int_list xs = map (\<lambda>x. case py_int x of Inl e \<Rightarrow> None | Inr n \<Rightarrow> Some n) xs"
  by (simp add: str_to_int_list_def str_to_int_list_loop_eq)

text \<open>
  Claim C10. \<^verbatim>\<open>str_to_bool_list\<close> maps the strings \<^verbatim>\<open>"True"\<close> and \<^verbatim>\<open>"False"\<close> to the
  booleans, \<^verbatim>\<open>"None"\<close> and \<^verbatim>\<open>"NULL"\<close> to \<^verbatim>\<open>None\<close>, and leaves every other element as it
  is; applying it to its own result changes nothing.
\<close>

theorem str_to_bool_list_idempotent:
  "str_to_bool_list xs =
     map (\<lambda>x. if x = PStr ''True'' then PBool True
              else if x = PStr ''False'' then PBool False
              else if x = PStr ''None'' \<or> x = PStr ''NULL'' then PNone
              else x) xs \<and>
   str_to_bool_list (str_to_bool_list xs) = str_to_bool_list xs"
  by (simp add: str_to_bool_list_def changes_get_idem) (simp add: changes_get)

section \<open>Properties of the error extraction\<close>

lemma re_search_group_None:
  "\<not> sublist lit s \<Longrightarrow> re_search_group lit cls s = None"
  by (induction s) (auto simp: sublist_Cons_right)

lemma extract_no_details: "\<not> sublist ''details: '' s \<Longrightarrow> snd (extract_error_info s) = []"
  by (simp add: extract_error_info_def re_search_group_None)

lemma extract_no_code: "\<not> sublist ''error code: '' s \<Longrightarrow> fst (extract_error_info s) = PInt 0"
  by (simp add: extract_error_info_def re_search_group_None)

lemma extract_empty: "extract_error_info [] = (PInt 0, [])"
  by (simp add: extract_error_info_def)

text \<open>
  Where the literal of a search first occurs right after \<open>pre\<close> and a character of the
  class follows it, the group is the longest run of class characters that follows.
\<close>

lemma prefix_before:
  assumes "prefix lit (pre @ lit @ rest)" and "pre \<noteq> []" and "lit \<noteq> []"
  shows "prefix lit (pre @ butlast lit)"
proof -
  have len: "length lit \<le> length (pre @ butlast lit)"
    using assms(2,3) by (cases pre) auto
  have "butlast lit @ last lit # rest = lit @ rest"
    using assms(3) by (metis append_butlast_last_id append_Cons append_Nil append_assoc)
  then have e: "pre @ lit @ rest = (pre @ butlast lit) @ (last lit # rest)"
    by simp
  from assms(1) obtain zs where "pre @ lit @ rest = lit @ zs"
    by (auto simp: prefix_def)
  then have "take (length lit) (pre @ lit @ rest) = lit"
    by simp
  then have "take (length lit) (pre @ butlast lit) = lit"
    unfolding e using len by (simp del: append_assoc)
  then show ?thesis
    by (metis take_is_prefix)
qed

lemma re_search_group_first:
  assumes "\<not> sublist lit (pre @ butlast lit)" and "lit \<noteq> []"
    and "rest \<noteq> []" and "cls (hd rest)"
  shows "re_search_group lit cls (pre @ lit @ rest) = Some (takeWhile cls rest)"
  using assms
proof (induction pre)
  case Nil
  obtain c cs where l: "lit @ rest = c # cs"
    using Nil.prems(2) by (cases lit) auto
  have t: "takeWhile cls rest \<noteq> []"
    using Nil.prems(3,4) by (cases rest) auto
  have p: "prefix lit (c # cs)"
    using l by (metis prefixI)
  have d: "drop (length lit) (c # cs) = rest"
    using l by (metis append_eq_conv_conj)
  have "re_search_group lit cls (c # cs) = Some (takeWhile cls rest)"
    using p d t by simp
  then show ?case
    by (simp add: l)
next
  case (Cons p ps)
  have np: "\<not> prefix lit ((p # ps) @ lit @ rest)"
  proof
    assume "prefix lit ((p # ps) @ lit @ rest)"
    then have "prefix lit ((p # ps) @ butlast lit)"
      using Cons.prems(2) by (intro prefix_before) auto
    then have "sublist lit ((p # ps) @ butlast lit)"
      by (rule prefix_imp_sublist)
    with Cons.prems(1) show False
      by simp
  qed
  have ns: "\<not> sublist lit (ps @ butlast lit)"
    using Cons.prems(1) by (simp add: sublist_Cons_right)
  from Cons.IH[OF ns Cons.prems(2,3,4)] np show ?case
    by simp
qed

lemma extract_message_first:
  assumes "\<not> sublist ''details: '' (pre @ ''details:'')"
    and "rest \<noteq> []" and "hd rest \<noteq> CHR 0x0A"
  shows "snd (extract_error_info (pre @ ''details: '' @ rest)) =
     py_strip (py_replace ''[PilotException('' [] (takeWhile (\<lambda>c. c \<noteq> CHR 0x0A) rest))"
proof -
  have "re_search_group ''details: '' re_dot (pre @ ''details: '' @ rest) =
      Some (takeWhile re_dot rest)"
    using assms by (intro re_search_group_first) (simp_all add: re_dot_def)
  moreover have "takeWhile re_dot rest = takeWhile (\<lambda>c. c \<noteq> CHR 0x0A) rest"
    by (simp add: re_dot_def[abs_def])
  ultimately show ?thesis
    by (simp add: extract_error_info_def)
qed

lemma extract_code_first:
  assumes "\<not> sublist ''error code: '' (pre @ ''error code:'')"
    and "rest \<noteq> []" and "is_digit (hd rest)"
  shows "fst (extract_error_info (pre @ ''error code: '' @ rest)) =
     PStr (takeWhile is_digit rest)"
proof -
  have "re_search_group ''error code: '' is_digit (pre @ ''error code: '' @ rest) =
      Some (takeWhile is_digit rest)"
    using assms by (intro re_search_group_first) simp_all
  then show ?thesis
    by (simp add: extract_error_info_def)
qed

text \<open>
  Claim C4, as the code has it. On the input
  \<^verbatim>\<open>... error code: 42 ... details: something [PilotException(oops\<close> the function
  \<^verbatim>\<open>extract_error_info\<close> returns the code \<^verbatim>\<open>"42"\<close> and the message
  \<^verbatim>\<open>something oops\<close>: the wrapper token is stripped out of the message and white space
  trimmed, and the text before the token is kept. For every input: when \<^verbatim>\<open>details: \<close>
  first occurs right after \<open>pre\<close> and a character other than a line feed follows, the
  message is the rest of that line with \<^verbatim>\<open>[PilotException(\<close> replaced by nothing
  (\<^verbatim>\<open>str.replace\<close>) and the ends stripped (\<^verbatim>\<open>str.strip\<close>); when \<^verbatim>\<open>error code: \<close> first
  occurs right after \<open>pre'\<close> and a digit follows, the code is the run of digits there, as
  a string. On an input that contains neither \<^verbatim>\<open>error code: \<close> nor \<^verbatim>\<open>details: \<close> the
  function returns the integer 0 and the empty message. It is defined on every string:
  it never raises.
\<close>

theorem extract_error_info_behaviour:
  "extract_error_info ''... error code: 42 ... details: something [PilotException(oops''
     = (PStr ''42'', ''something oops'') \<and>
   (\<not> sublist ''details: '' (pre @ ''details:'') \<and> rest \<noteq> [] \<and> hd rest \<noteq> CHR 0x0A \<longrightarrow>
      snd (extract_error_info (pre @ ''details: '' @ rest)) =
        py_strip (py_replace ''[PilotException('' []
                    (takeWhile (\<lambda>c. c \<noteq> CHR 0x0A) rest))) \<and>
   (\<not> sublist ''error code: '' (pre' @ ''error code:'') \<and> rest' \<noteq> [] \<and> is_digit (hd rest') \<longrightarrow>
      fst (extract_error_info (pre' @ ''error code: '' @ rest')) =
        PStr (takeWhile is_digit rest')) \<and>
   (\<not> sublist ''error code: '' s \<and> \<not> sublist ''details: '' s \<longrightarrow>
      extract_error_info s = (PInt 0, []))"
proof (intro conjI impI)
  show "extract_error_info ''... error code: 42 ... details: something [PilotException(oops''
     = (PStr ''42'', ''something oops'')"
    by code_simp
next
  assume "\<not> sublist ''details: '' (pre @ ''details:'') \<and> rest \<noteq> [] \<and> hd rest \<noteq> CHR 0x0A"
  then show "snd (extract_error_info (pre @ ''details: '' @ rest)) =
        py_strip (py_replace ''[PilotException('' []
                    (takeWhile (\<lambda>c. c \<noteq> CHR 0x0A) rest))"
    by (intro extract_message_first) blast+
next
  assume "\<not> sublist ''error code: '' (pre' @ ''error code:'') \<and> rest' \<noteq> [] \<and>
    is_digit (hd rest')"
  then show "fst (extract_error_info (pre' @ ''error code: '' @ rest')) =
        PStr (takeWhile is_digit rest')"
    by (intro extract_code_first) blast+
next
  assume "\<not> sublist ''error code: '' s \<and> \<not> sublist ''details: '' s"
  then show "extract_error_info s = (PInt 0, [])"
    using extract_no_details[of s] extract_no_code[of s]
    by (auto simp: prod_eq_iff)
qed

text \<open>
  An instance with two tokens, white space at both ends of the detail and a second line:
  the message is \<^verbatim>\<open>a b\<close>, the code \<^verbatim>\<open>7\<close>; and an input with neither literal.
\<close>

theorem extract_error_info_behaviour_witness:
  "\<not> sublist ''details: '' (''x error code: 7 y '' @ ''details:'') \<and>
   ''  [PilotException(a [PilotException(b  '' @ [CHR 0x0A] @ ''more'' \<noteq> [] \<and>
   hd (''  [PilotException(a [PilotException(b  '' @ [CHR 0x0A] @ ''more'') \<noteq> CHR 0x0A \<and>
   snd (extract_error_info (''x error code: 7 y '' @ ''details: '' @
          (''  [PilotException(a [PilotException(b  '' @ [CHR 0x0A] @ ''more''))) = ''a b'' \<and>
   \<not> sublist ''error code: '' (''x '' @ ''error code:'') \<and>
   ''7 y details: z'' \<noteq> [] \<and> is_digit (hd ''7 y details: z'') \<and>
   fst (extract_error_info (''x '' @ ''error code: '' @ ''7 y details: z'')) = PStr ''7'' \<and>
   \<not> sublist ''error code: '' ''connection refused'' \<and>
   \<not> sublist ''details: '' ''connection refused'' \<and>
   extract_error_info ''connection refused'' = (PInt 0, [])"
proof -
  let ?pre = "''x error code: 7 y ''"
  let ?rest = "''  [PilotException(a [PilotException(b  '' @ [CHR 0x0A] @ ''more''"
  note t = extract_error_info_behaviour[of ?pre ?rest "''x ''" "''7 y details: z''"
      "''connection refused''"]
  have m1: "\<not> sublist ''details: '' (?pre @ ''details:'')"
    by code_simp
  have m2: "?rest \<noteq> []"
    by simp
  have m3: "hd ?rest \<noteq> CHR 0x0A"
    by simp
  have m4: "py_strip (py_replace ''[PilotException('' []
              (takeWhile (\<lambda>c. c \<noteq> CHR 0x0A) ?rest)) = ''a b''"
    by code_simp
  have c1: "\<not> sublist ''error code: '' (''x '' @ ''error code:'')"
    by code_simp
  have c2: "''7 y details: z'' \<noteq> []"
    by simp
  have c3: "is_digit (hd ''7 y details: z'')"
    by code_simp
  have c4: "PStr (takeWhile is_digit ''7 y details: z'') = PStr ''7''"
    by code_simp
  have a: "\<not> sublist ''error code: '' ''connection refused''"
    by code_simp
  have b: "\<not> sublist ''details: '' ''connection refused''"
    by code_simp
  from t m1 m2 m3 have "snd (extract_error_info (?pre @ ''details: '' @ ?rest)) =
      py_strip (py_replace ''[PilotException('' [] (takeWhile (\<lambda>c. c \<noteq> CHR 0x0A) ?rest))"
    by blast
  then have r1: "snd (extract_error_info (?pre @ ''details: '' @ ?rest)) = ''a b''"
    using m4 by (rule trans)
  from t c1 c2 c3 have "fst (extract_error_info (''x '' @ ''error code: '' @ ''7 y details: z'')) =
      PStr (takeWhile is_digit ''7 y details: z'')"
    by blast
  then have r2: "fst (extract_error_info (''x '' @ ''error code: '' @ ''7 y details: z'')) =
      PStr ''7''"
    using c4 by (rule trans)
  from t a b have r3: "extract_error_info ''connection refused'' = (PInt 0, [])"
    by blast
  from m1 m2 m3 r1 c1 c2 c3 r2 a b r3 show ?thesis
    by blast
qed

text \<open>
  Claim C4 as the specification states it, with the message \<^verbatim>\<open>oops\<close>, does not hold:
  the text \<^verbatim>\<open>something \<close> before the token is part of the message.
\<close>

theorem extract_error_info_oops_counterexample:
  "extract_error_info ''... error code: 42 ... details: something [PilotException(oops''
     \<noteq> (PStr ''42'', ''oops'')"
  by code_simp

section \<open>Properties of the list reconciler\<close>

lemma run_try_step_None:
  "run_try ((\<lambda>r. assign (split_arg None) (store r)) # rest) s = (s, Some AttributeError)"
  by (simp add: assign_def split_arg_def)

lemma run_try_step_Some:
  "run_try ((\<lambda>r. assign (split_arg (Some x)) (store r)) # rest) s =
     run_try rest (store s (py_split CHR '','' x))"
  by (simp add: assign_def split_arg_def)

lemma fst_get_file_lists:
  "fst (get_file_lists a1 a2 a3 a4 a5 a6 a7 a8 a9 a10 a11 a12) =
   fst (run_try
            [\<lambda>r. assign (split_arg a1) (\<lambda>v. r\<lparr>lfns := v\<rparr>),
             \<lambda>r. assign (split_arg a2) (\<lambda>v. r\<lparr>scopes := v\<rparr>),
             \<lambda>r. assign (split_arg a3) (\<lambda>v. r\<lparr>filesizes := str_to_int_list v\<rparr>),
             \<lambda>r. assign (split_arg a4) (\<lambda>v. r\<lparr>checksums := v\<rparr>),
             \<lambda>r. assign (split_arg a5)
                    (\<lambda>v. r\<lparr>allowlans := str_to_bool_list (map PStr v)\<rparr>),
             \<lambda>r. assign (split_arg a6)
                    (\<lambda>v. r\<lparr>allowwans := str_to_bool_list (map PStr v)\<rparr>),
             \<lambda>r. assign (split_arg a7)
                    (\<lambda>v. r\<lparr>directaccesslans := str_to_bool_list (map PStr v)\<rparr>),
             \<lambda>r. assign (split_arg a8)
                    (\<lambda>v. r\<lparr>directaccesswans := str_to_bool_list (map PStr v)\<rparr>),
             \<lambda>r. assign (split_arg a9)
                    (\<lambda>v. r\<lparr>istars := str_to_bool_list (map PStr v)\<rparr>),
             \<lambda>r. assign (split_arg a10) (\<lambda>v. r\<lparr>accessmodes := v\<rparr>),
             \<lambda>r. assign (split_arg a11) (\<lambda>v. r\<lparr>storagetokens := v\<rparr>),
             \<lambda>r. assign (split_arg a12) (\<lambda>v. r\<lparr>guids := v\<rparr>)]
            empty_file_lists)"
  by (simp add: get_file_lists_def split: prod.splits)

lemmas gfl_simps = run_try_step_None run_try_step_Some empty_file_lists_def present_def strs_def

text \<open>
  The record \<^verbatim>\<open>get_file_lists\<close> returns, field by field: a field holds the parsed
  value of its argument when that argument and all arguments read before it are strings,
  and is empty otherwise.
\<close>

lemma get_file_lists_record:
  "fst (get_file_lists a1 a2 a3 a4 a5 a6 a7 a8 a9 a10 a11 a12) =
    \<lparr>lfns = (if present [a1] then strs a1 else []),
     scopes = (if present [a1, a2] then strs a2 else []),
     filesizes = (if present [a1, a2, a3] then str_to_int_list (strs a3) else []),
     checksums = (if present [a1, a2, a3, a4] then strs a4 else []),
     allowlans = (if present [a1, a2, a3, a4, a5]
                  then str_to_bool_list (map PStr (strs a5)) else []),
     allowwans = (if present [a1, a2, a3, a4, a5, a6]
                  then str_to_bool_list (map PStr (strs a6)) else []),
     directaccesslans = (if present [a1, a2, a3, a4, a5, a6, a7]
                         then str_to_bool_list (map PStr (strs a7)) else []),
     directaccesswans = (if present [a1, a2, a3, a4, a5, a6, a7, a8]
                         then str_to_bool_list (map PStr (strs a8)) else []),
     istars = (if present [a1, a2, a3, a4, a5, a6, a7, a8, a9]
               then str_to_bool_list (map PStr (strs a9)) else []),
     accessmodes = (if present [a1, a2, a3, a4, a5, a6, a7, a8, a9, a10] then strs a10 else []),
     storagetokens = (if present [a1, a2, a3, a4, a5, a6, a7, a8, a9, a10, a11]
                      then strs a11 else []),
     guids = (if present [a1, a2, a3, a4, a5, a6, a7, a8, a9, a10, a11, a12]
              then strs a12 else [])\<rparr>"
  unfolding fst_get_file_lists
  by (cases a1; simp add: gfl_simps del: run_try.simps(2) split del: if_split;
      cases a2; simp add: gfl_simps del: run_try.simps(2) split del: if_split;
      cases a3; simp add: gfl_simps del: run_try.simps(2) split del: if_split;
      cases a4; simp add: gfl_simps del: run_try.simps(2) split del: if_split;
      cases a5; simp add: gfl_simps del: run_try.simps(2) split del: if_split;
      cases a6; simp add: gfl_simps del: run_try.simps(2) split del: if_split;
      cases a7; simp add: gfl_simps del: run_try.simps(2) split del: if_split;
      cases a8; simp add: gfl_simps del: run_try.simps(2) split del: if_split;
      cases a9; simp add: gfl_simps del: run_try.simps(2) split del: if_split;
      cases a10; simp add: gfl_simps del: run_try.simps(2) split del: if_split;
      cases a11; simp add: gfl_simps del: run_try.simps(2) split del: if_split;
      cases a12; simp add: gfl_simps del: run_try.simps(2) split del: if_split)

text \<open>
  Claim C5, as the code has it. \<^verbatim>\<open>get_file_lists\<close> never lets the exception of a
  failing split out. The fields are assigned in the order of the parameters, and the
  first failing split ends the assignments: a field whose argument, and every argument
  before it, is a string holds its fully parsed value; the failing field and all fields
  after it are empty lists.
\<close>

theorem get_file_lists_partial:
  "(let r = fst (get_file_lists a1 a2 a3 a4 a5 a6 a7 a8 a9 a10 a11 a12) in
     lfns r = (if present [a1] then strs a1 else []) \<and>
     scopes r = (if present [a1, a2] then strs a2 else []) \<and>
     filesizes r = (if present [a1, a2, a3] then str_to_int_list (strs a3) else []) \<and>
     checksums r = (if present [a1, a2, a3, a4] then strs a4 else []) \<and>
     allowlans r = (if present [a1, a2, a3, a4, a5]
                    then str_to_bool_list (map PStr (strs a5)) else []) \<and>
     allowwans r = (if present [a1, a2, a3, a4, a5, a6]
                    then str_to_bool_list (map PStr (strs a6)) else []) \<and>
     directaccesslans r = (if present [a1, a2, a3, a4, a5, a6, a7]
                           then str_to_bool_list (map PStr (strs a7)) else []) \<and>
     directaccesswans r = (if present [a1, a2, a3, a4, a5, a6, a7, a8]
                           then str_to_bool_list (map PStr (strs a8)) else []) \<and>
     istars r = (if present [a1, a2, a3, a4, a5, a6, a7, a8, a9]
                 then str_to_bool_list (map PStr (strs a9)) else []) \<and>
     accessmodes r = (if present [a1, a2, a3, a4, a5, a6, a7, a8, a9, a10]
                      then strs a10 else []) \<and>
     storagetokens r = (if present [a1, a2, a3, a4, a5, a6, a7, a8, a9, a10, a11]
                        then strs a11 else []) \<and>
     guids r = (if present [a1, a2, a3, a4, a5, a6, a7, a8, a9, a10, a11, a12]
                then strs a12 else []))"
  unfolding get_file_lists_record Let_def by (simp split del: if_split)

text \<open>
  Claim C5 as the specification states it, with empty lists for all fields, does not
  hold: when the third argument (\<^verbatim>\<open>filesizes\<close>) is \<^verbatim>\<open>None\<close>, the two fields assigned
  before it keep their parsed values.
\<close>

theorem get_file_lists_keeps_prefix_counterexample:
  "lfns (fst (get_file_lists (Some ''f1,f2'') (Some ''mc16,mc16'') None (Some ''ad:1,ad:2'')
            (Some ''True,False'') (Some ''True,False'') (Some ''False,False'')
            (Some ''False,False'') (Some ''False,False'') (Some ''copy,copy'')
            (Some ''t1,t2'') (Some ''g1,g2''))) = [''f1'', ''f2''] \<and>
   scopes (fst (get_file_lists (Some ''f1,f2'') (Some ''mc16,mc16'') None (Some ''ad:1,ad:2'')
            (Some ''True,False'') (Some ''True,False'') (Some ''False,False'')
            (Some ''False,False'') (Some ''False,False'') (Some ''copy,copy'')
            (Some ''t1,t2'') (Some ''g1,g2''))) = [''mc16'', ''mc16''] \<and>
   filesizes (fst (get_file_lists (Some ''f1,f2'') (Some ''mc16,mc16'') None (Some ''ad:1,ad:2'')
            (Some ''True,False'') (Some ''True,False'') (Some ''False,False'')
            (Some ''False,False'') (Some ''False,False'') (Some ''copy,copy'')
            (Some ''t1,t2'') (Some ''g1,g2''))) = []"
  by (simp add: get_file_lists_record present_def strs_def)

section \<open>Properties of the descriptor builder\<close>

lemma length_zip12:
  "length (zip12 fl) =
     min (length (lfns fl)) (min (length (scopes fl)) (min (length (filesizes fl))
       (min (length (checksums fl)) (min (length (allowlans fl)) (min (length (allowwans fl))
         (min (length (directaccesslans fl)) (min (length (directaccesswans fl))
           (min (length (istars fl)) (min (length (accessmodes fl))
             (min (length (storagetokens fl)) (length (guids fl))))))))))))"
  unfolding zip12_def by (simp only: length_zip)

lemma nth_zip12:
  "i < length (zip12 fl) \<Longrightarrow>
   zip12 fl ! i =
     (lfns fl ! i, scopes fl ! i, filesizes fl ! i, checksums fl ! i, allowlans fl ! i,
      allowwans fl ! i, directaccesslans fl ! i, directaccesswans fl ! i, istars fl ! i,
      accessmodes fl ! i, storagetokens fl ! i, guids fl ! i)"
  unfolding zip12_def by (simp only: length_zip min_less_iff_conj nth_zip)

lemma length_build_xfiles: "length (build_xfiles wd fl) = length (zip12 fl)"
  by (simp add: build_xfiles_def build_files_def)

lemma nth_build_xfiles:
  "i < length (zip12 fl) \<Longrightarrow>
   build_xfiles wd fl ! i =
     \<lparr>scope = scopes fl ! i, lfn = lfns fl ! i, workdir = wd, filesize = filesizes fl ! i,
      checksum = checksums fl ! i, allow_lan = allowlans fl ! i, allow_wan = allowwans fl ! i,
      direct_access_lan = directaccesslans fl ! i, guid = guids fl ! i,
      direct_access_wan = directaccesswans fl ! i, is_tar = istars fl ! i,
      accessmode = accessmodes fl ! i, storage_token = storagetokens fl ! i,
      ftype = ''input'', status = PNone, status_code = PNone, turl = PNone\<rparr>"
  by (simp add: build_xfiles_def build_files_def nth_zip12 FileSpec_init_def)

text \<open>
  Claim C8. From twelve lists of the same length \<open>n\<close> the builder makes exactly \<open>n\<close>
  descriptors; the descriptor at position \<open>i\<close> carries the element at position \<open>i\<close> of
  every list, the shared working directory and the type \<^verbatim>\<open>input\<close>.
\<close>

theorem build_xfiles_aligned:
  assumes "length (lfns fl) = n" "length (scopes fl) = n" "length (filesizes fl) = n"
    "length (checksums fl) = n" "length (allowlans fl) = n" "length (allowwans fl) = n"
    "length (directaccesslans fl) = n" "length (directaccesswans fl) = n"
    "length (istars fl) = n" "length (accessmodes fl) = n" "length (storagetokens fl) = n"
    "length (guids fl) = n"
  shows "length (build_xfiles wd fl) = n \<and>
    (\<forall>i<n. build_xfiles wd fl ! i =
     \<lparr>scope = scopes fl ! i, lfn = lfns fl ! i, workdir = wd, filesize = filesizes fl ! i,
      checksum = checksums fl ! i, allow_lan = allowlans fl ! i, allow_wan = allowwans fl ! i,
      direct_access_lan = directaccesslans fl ! i, guid = guids fl ! i,
      direct_access_wan = directaccesswans fl ! i, is_tar = istars fl ! i,
      accessmode = accessmodes fl ! i, storage_token = storagetokens fl ! i,
      ftype = ''input'', status = PNone, status_code = PNone, turl = PNone\<rparr>)"
proof -
  have len: "length (zip12 fl) = n"
    using assms by (simp only: length_zip12 min.idem)
  show ?thesis
    using len by (simp add: length_build_xfiles nth_build_xfiles)
qed

theorem build_xfiles_aligned_witness:
  "length (lfns (fst (file_lists_of two_files))) = 2 \<and>
   length (scopes (fst (file_lists_of two_files))) = 2 \<and>
   length (filesizes (fst (file_lists_of two_files))) = 2 \<and>
   length (checksums (fst (file_lists_of two_files))) = 2 \<and>
   length (allowlans (fst (file_lists_of two_files))) = 2 \<and>
   length (allowwans (fst (file_lists_of two_files))) = 2 \<and>
   length (directaccesslans (fst (file_lists_of two_files))) = 2 \<and>
   length (directaccesswans (fst (file_lists_of two_files))) = 2 \<and>
   length (istars (fst (file_lists_of two_files))) = 2 \<and>
   length (accessmodes (fst (file_lists_of two_files))) = 2 \<and>
   length (storagetokens (fst (file_lists_of two_files))) = 2 \<and>
   length (guids (fst (file_lists_of two_files))) = 2 \<and>
   length (build_xfiles ''/srv/job'' (fst (file_lists_of two_files))) = 2 \<and>
   build_xfiles ''/srv/job'' (fst (file_lists_of two_files)) ! 1 =
     \<lparr>scope = ''mc16'', lfn = ''f2'', workdir = ''/srv/job'', filesize = None,
      checksum = ''ad:2'', allow_lan = PBool False, allow_wan = PNone,
      direct_access_lan = PBool False, guid = ''g2'',
      direct_access_wan = PStr ''maybe'', is_tar = PBool False,
      accessmode = ''direct'', storage_token = ''t2'',
      ftype = ''input'', status = PNone, status_code = PNone, turl = PNone\<rparr>"
proof -
  let ?fl = "fst (file_lists_of two_files)"
  have h1: "length (lfns ?fl) = 2" by code_simp
  have h2: "length (scopes ?fl) = 2" by code_simp
  have h3: "length (filesizes ?fl) = 2" by code_simp
  have h4: "length (checksums ?fl) = 2" by code_simp
  have h5: "length (allowlans ?fl) = 2" by code_simp
  have h6: "length (allowwans ?fl) = 2" by code_simp
  have h7: "length (directaccesslans ?fl) = 2" by code_simp
  have h8: "length (directaccesswans ?fl) = 2" by code_simp
  have h9: "length (istars ?fl) = 2" by code_simp
  have h10: "length (accessmodes ?fl) = 2" by code_simp
  have h11: "length (storagetokens ?fl) = 2" by code_simp
  have h12: "length (guids ?fl) = 2" by code_simp
  note t = build_xfiles_aligned[OF h1 h2 h3 h4 h5 h6 h7 h8 h9 h10 h11 h12, of "''/srv/job''"]
  from t have len: "length (build_xfiles ''/srv/job'' ?fl) = 2"
    by (rule conjunct1)
  from t have "build_xfiles ''/srv/job'' ?fl ! 1 =
     \<lparr>scope = scopes ?fl ! 1, lfn = lfns ?fl ! 1, workdir = ''/srv/job'',
      filesize = filesizes ?fl ! 1, checksum = checksums ?fl ! 1,
      allow_lan = allowlans ?fl ! 1, allow_wan = allowwans ?fl ! 1,
      direct_access_lan = directaccesslans ?fl ! 1, guid = guids ?fl ! 1,
      direct_access_wan = directaccesswans ?fl ! 1, is_tar = istars ?fl ! 1,
      accessmode = accessmodes ?fl ! 1, storage_token = storagetokens ?fl ! 1,
      ftype = ''input'', status = PNone, status_code = PNone, turl = PNone\<rparr>"
    by simp
  also have "\<dots> =
     \<lparr>scope = ''mc16'', lfn = ''f2'', workdir = ''/srv/job'', filesize = None,
      checksum = ''ad:2'', allow_lan = PBool False, allow_wan = PNone,
      direct_access_lan = PBool False, guid = ''g2'',
      direct_access_wan = PStr ''maybe'', is_tar = PBool False,
      accessmode = ''direct'', storage_token = ''t2'',
      ftype = ''input'', status = PNone, status_code = PNone, turl = PNone\<rparr>"
    by code_simp
  finally show ?thesis
    using h1 h2 h3 h4 h5 h6 h7 h8 h9 h10 h11 h12 len by blast
qed

section \<open>Properties of the status dictionary\<close>

lemma map_of_setitem_same: "map_of (dict_setitem d k v) k = Some v"
  by (induction d) auto

lemma map_of_setitem_other: "k' \<noteq> k \<Longrightarrow> map_of (dict_setitem d k v) k' = map_of d k'"
  by (induction d) auto

lemma keys_setitem: "set (map fst (dict_setitem d k v)) = insert k (set (map fst d))"
  by (induction d) auto

lemma distinct_setitem: "distinct (map fst d) \<Longrightarrow> distinct (map fst (dict_setitem d k v))"
  by (induction d) (auto simp: keys_setitem simp flip: set_map)

lemma key_count_distinct:
  "distinct (map fst d) \<Longrightarrow> key_count d k = (if k \<in> set (map fst d) then 1 else 0)"
  unfolding key_count_def
  by (induction d) (auto simp: rev_image_eqI)

lemma distinct_fill: "distinct (map fst d) \<Longrightarrow> distinct (map fst (fill_dictionary xs d))"
  by (induction xs arbitrary: d) (simp_all add: add_to_dictionary_def distinct_setitem)

lemma distinct_filled: "distinct (map fst (if xs \<noteq> [] then fill_dictionary xs [] else []))"
  by (simp add: distinct_fill)

lemma keys_fill: "set (map fst (fill_dictionary xs d)) = set (map lfn xs) \<union> set (map fst d)"
  by (induction xs arbitrary: d) (auto simp: add_to_dictionary_def keys_setitem simp del: set_map)

lemma map_of_fill_snoc:
  "map_of (fill_dictionary (xs @ [x]) d) k =
     (if lfn x = k then Some [status x, status_code x, turl x]
      else map_of (fill_dictionary xs d) k)"
  by (induction xs arbitrary: d)
     (simp_all add: add_to_dictionary_def map_of_setitem_same map_of_setitem_other)

text \<open>After the loop a key maps to the outcome of the last descriptor that has it.\<close>

lemma map_of_fill_last:
  "j < length xs \<Longrightarrow> lfn (xs ! j) = k \<Longrightarrow>
   \<forall>i. j < i \<and> i < length xs \<longrightarrow> lfn (xs ! i) \<noteq> k \<Longrightarrow>
   map_of (fill_dictionary xs d) k = Some [status (xs ! j), status_code (xs ! j), turl (xs ! j)]"
proof (induction xs rule: rev_induct)
  case Nil
  then show ?case by simp
next
  case (snoc x xs)
  show ?case
  proof (cases "j = length xs")
    case True
    with snoc.prems show ?thesis by (simp add: map_of_fill_snoc)
  next
    case False
    with snoc.prems have j: "j < length xs" by simp
    from snoc.prems j have x: "lfn x \<noteq> k"
      by (metis length_append_singleton lessI nth_append_length)
    have k: "lfn (xs ! j) = k" using snoc.prems j by (simp add: nth_append)
    have later: "\<forall>i. j < i \<and> i < length xs \<longrightarrow> lfn (xs ! i) \<noteq> k"
    proof (intro allI impI)
      fix i assume i: "j < i \<and> i < length xs"
      then have "lfn ((xs @ [x]) ! i) \<noteq> k" using snoc.prems(3) by simp
      with i show "lfn (xs ! i) \<noteq> k" by (simp add: nth_append)
    qed
    from snoc.IH[OF j k later] x j show ?thesis
      by (simp add: map_of_fill_snoc nth_append)
  qed
qed

section \<open>Properties of the main program\<close>

lemma out_dictionary_main:
  "out_dictionary (main w a) =
     add_to_dictionary
       (if fst (dispatch w a) \<noteq> [] then fill_dictionary (fst (dispatch w a)) [] else [])
       ''error'' (PStr (snd (final_error (snd (dispatch w a)))))
       (fst (final_error (snd (dispatch w a)))) PNone"
  by (simp add: main_def Let_def split: prod.splits)

lemma out_exit_code_main:
  "out_exit_code (main w a) = (if snd (final_error (snd (dispatch w a))) = [] then 0 else 12)"
  by (simp add: main_def Let_def TRANSFER_ERROR_def split: prod.splits)

lemma out_written_main:
  "out_written (main w a) =
     [(os_path_join (arg_workdir a) (stagein_dictionary w), out_dictionary (main w a))]"
  by (simp add: main_def Let_def split: prod.splits)

lemma out_xfiles_main: "out_xfiles (main w a) = fst (dispatch w a)"
  by (simp add: main_def Let_def split: prod.splits)

lemma error_entry_main:
  "map_of (out_dictionary (main w a)) ''error'' =
     Some [PStr (snd (final_error (snd (dispatch w a)))),
           fst (final_error (snd (dispatch w a))), PNone]"
  by (simp add: out_dictionary_main add_to_dictionary_def map_of_setitem_same)

lemma error_count_main: "key_count (out_dictionary (main w a)) ''error'' = 1"
  unfolding out_dictionary_main add_to_dictionary_def
  by (subst key_count_distinct)
     (simp_all only: distinct_setitem distinct_filled keys_setitem insertI1 if_True)

lemma final_error_Some:
  "final_error (Some m) = (if m = [] then (PInt (- 1), []) else extract_error_info m)"
  by (simp add: final_error_def)

lemma snd_file_lists_of_no_mismatch: "filter is_length_mismatch (snd (file_lists_of a)) = []"
  by (simp add: file_lists_of_def get_file_lists_def assign_def split_arg_def empty_file_lists_def)

lemma filter_summary: "filter is_length_mismatch (map summary_line xs) = []"
  by (induction xs) (simp_all add: summary_line_def)

lemma filter_files: "filter is_length_mismatch (map Files_dump xs) = []"
  by (induction xs) simp_all

lemma mismatch_log_main:
  "filter is_length_mismatch (out_log (main w a)) =
     (if length (lfns (fst (file_lists_of a))) \<noteq> length (scopes (fst (file_lists_of a)))
      then [Lists_not_same_length (length (lfns (fst (file_lists_of a))))
              (length (scopes (fst (file_lists_of a))))]
      else [])"
proof -
  obtain fl lg where f: "file_lists_of a = (fl, lg)" by (cases "file_lists_of a")
  have lg: "filter is_length_mismatch lg = []"
    using snd_file_lists_of_no_mismatch[of a] f by simp
  obtain xs r where d: "dispatch w a = (xs, r)" by (cases "dispatch w a")
  obtain c e where fe: "final_error r = (c, e)" by (cases "final_error r")
  show ?thesis
    by (simp add: main_def Let_def f d fe lg filter_summary filter_files split: option.split)
qed

text \<open>
  Claim C1. In every run the dictionary that is written has exactly one entry under the
  key \<^verbatim>\<open>error\<close>; when the call of \<^verbatim>\<open>transfer\<close> returns without raising, that entry is
  the empty message, the code 0 and \<^verbatim>\<open>None\<close>.
\<close>

theorem error_entry_unique:
  "key_count (out_dictionary (main w a)) ''error'' = 1 \<and>
   (snd (dispatch w a) = None \<longrightarrow>
      map_of (out_dictionary (main w a)) ''error'' = Some [PStr [], PInt 0, PNone])"
  by (simp add: error_count_main error_entry_main final_error_def)

theorem error_entry_unique_witness:
  "snd (dispatch (world_with transfer_done) two_files) = None \<and>
   key_count (out_dictionary (main (world_with transfer_done) two_files)) ''error'' = 1 \<and>
   map_of (out_dictionary (main (world_with transfer_done) two_files)) ''error'' =
     Some [PStr [], PInt 0, PNone]"
proof -
  have h: "snd (dispatch (world_with transfer_done) two_files) = None"
    by code_simp
  from error_entry_unique[of "world_with transfer_done" two_files] h show ?thesis
    by blast
qed

text \<open>
  What every run writes and how it ends: one call of \<^verbatim>\<open>write_json\<close>, with the path
  \<^verbatim>\<open>os.path.join(workdir, config.Container.stagein_dictionary)\<close> and the finished
  dictionary, whose \<^verbatim>\<open>error\<close> entry holds the message and code left by the extraction;
  the exit code is decided by that message, not by the one the handler captured.
\<close>

lemma written_and_exit_code_main:
  "out_written (main w a) =
     [(os_path_join (arg_workdir a) (stagein_dictionary w), out_dictionary (main w a))] \<and>
   map_of (out_dictionary (main w a)) ''error'' =
     Some [PStr (snd (final_error (snd (dispatch w a)))),
           fst (final_error (snd (dispatch w a))), PNone] \<and>
   out_exit_code (main w a) = (if snd (final_error (snd (dispatch w a))) = [] then 0 else 12)"
  by (simp add: out_written_main error_entry_main out_exit_code_main)

lemma os_path_join_plain:
  "a \<noteq> [] \<Longrightarrow> last a \<noteq> CHR ''/'' \<Longrightarrow> \<not> prefix ''/'' b \<Longrightarrow>
   os_path_join a b = a @ ''/'' @ b"
  by (simp add: os_path_join_def)

text \<open>
  Claim C2. The report is written to the file of the configured name in the working
  directory in every case, and the process then exits with code 12 exactly when the
  global error string, the message the handler captured from the raising backend, is not
  empty, and with code 0 when it is empty. The script writes the report in every case,
  but it does not keep the exit rule: the handler stores the message in \<^verbatim>\<open>err\<close>,
  the extraction then overwrites \<^verbatim>\<open>err\<close>, and the exit test reads the overwritten
  value. Here the backend raises with \<^verbatim>\<open>[Errno 111] Connection refused\<close>: the captured
  string is not empty, the report is written with the \<^verbatim>\<open>error\<close> entry
  \<^verbatim>\<open>["", 0, None]\<close>, and the exit code is 0 where the claim has 12.
\<close>

theorem captured_error_exits_zero:
  "snd (dispatch (world_with (transfer_raising ''[Errno 111] Connection refused'')) two_files) =
     Some ''[Errno 111] Connection refused'' \<and>
   out_written (main (world_with (transfer_raising ''[Errno 111] Connection refused''))
                  two_files) =
     [(''/srv/job/stagein_dictionary.json'',
       [(''f1'', [PNone, PNone, PNone]), (''f2'', [PNone, PNone, PNone]),
        (''error'', [PStr [], PInt 0, PNone])])] \<and>
   out_exit_code (main (world_with (transfer_raising ''[Errno 111] Connection refused''))
                    two_files) = 0"
  by code_simp

text \<open>
  Claim C3. When the backend raises with a message in which \<^verbatim>\<open>details: \<close> does not
  occur, the extracted message is empty, the \<^verbatim>\<open>error\<close> entry of the report carries the
  empty message, and the process exits with code 0 although the transfer failed. The
  exit code is 12 exactly when the backend raised and the detail message extracted from
  its text is not empty.
\<close>

theorem no_details_exits_zero:
  "(snd (dispatch w a) = Some m \<and> \<not> sublist ''details: '' m \<longrightarrow>
      snd (extract_error_info m) = [] \<and>
      map_of (out_dictionary (main w a)) ''error'' =
        Some [PStr [], if m = [] then PInt (- 1) else fst (extract_error_info m), PNone] \<and>
      out_exit_code (main w a) = 0) \<and>
   (out_exit_code (main w a) = 12 \<longleftrightarrow>
      (\<exists>m'. snd (dispatch w a) = Some m' \<and> snd (extract_error_info m') \<noteq> []))"
proof (intro conjI impI)
  assume h: "snd (dispatch w a) = Some m \<and> \<not> sublist ''details: '' m"
  then show e: "snd (extract_error_info m) = []"
    by (simp add: extract_no_details)
  from h e show "map_of (out_dictionary (main w a)) ''error'' =
        Some [PStr [], if m = [] then PInt (- 1) else fst (extract_error_info m), PNone]"
    by (simp add: error_entry_main final_error_Some)
  from h e show "out_exit_code (main w a) = 0"
    by (simp add: out_exit_code_main final_error_Some)
next
  show "out_exit_code (main w a) = 12 \<longleftrightarrow>
      (\<exists>m'. snd (dispatch w a) = Some m' \<and> snd (extract_error_info m') \<noteq> [])"
  proof (cases "snd (dispatch w a)")
    case None
    then show ?thesis by (simp add: out_exit_code_main final_error_def)
  next
    case (Some m')
    then show ?thesis by (auto simp: out_exit_code_main final_error_Some extract_empty)
  qed
qed

theorem no_details_exits_zero_witness:
  "snd (dispatch (world_with (transfer_raising ''connection refused'')) two_files) =
     Some ''connection refused'' \<and>
   \<not> sublist ''details: '' ''connection refused'' \<and>
   map_of (out_dictionary (main (world_with (transfer_raising ''connection refused'')) two_files))
     ''error'' = Some [PStr [], PInt 0, PNone] \<and>
   out_exit_code (main (world_with (transfer_raising ''connection refused'')) two_files) = 0"
proof -
  let ?w = "world_with (transfer_raising ''connection refused'')"
  have h1: "snd (dispatch ?w two_files) = Some ''connection refused''"
    by code_simp
  have h2: "\<not> sublist ''details: '' ''connection refused''"
    by code_simp
  have c: "(if ''connection refused'' = [] then PInt (- 1)
            else fst (extract_error_info ''connection refused'')) = PInt 0"
    by code_simp
  from no_details_exits_zero[of ?w two_files "''connection refused''"] h1 h2
  have "map_of (out_dictionary (main ?w two_files)) ''error'' =
        Some [PStr [], if ''connection refused'' = [] then PInt (- 1)
                       else fst (extract_error_info ''connection refused''), PNone] \<and>
      out_exit_code (main ?w two_files) = 0"
    by blast
  with c h1 h2 show ?thesis
    by simp
qed

text \<open>
  Claim C6, as the code has it. When two descriptors share a logical file name other than
  the reserved key \<^verbatim>\<open>error\<close>, the report has one entry under that name, and it holds
  the outcome of the later descriptor (the last one with the name); nothing of the
  earlier one is kept.
\<close>

theorem duplicate_lfn_last_wins:
  assumes "xs = out_xfiles (main w a)"
    and "i < j" and "j < length xs"
    and "lfn (xs ! i) = name" and "lfn (xs ! j) = name"
    and "\<forall>k. j < k \<and> k < length xs \<longrightarrow> lfn (xs ! k) \<noteq> name"
    and "name \<noteq> ''error''"
  shows "map_of (out_dictionary (main w a)) name =
           Some [status (xs ! j), status_code (xs ! j), turl (xs ! j)] \<and>
         key_count (out_dictionary (main w a)) name = 1"
proof -
  have xs: "fst (dispatch w a) = xs"
    using assms(1) by (simp add: out_xfiles_main)
  have ne: "xs \<noteq> []"
    using assms(3) by auto
  have d: "out_dictionary (main w a) =
      dict_setitem (fill_dictionary xs []) ''error''
        [PStr (snd (final_error (snd (dispatch w a)))),
         fst (final_error (snd (dispatch w a))), PNone]"
    by (simp add: out_dictionary_main xs ne add_to_dictionary_def)
  have m: "map_of (fill_dictionary xs []) name =
      Some [status (xs ! j), status_code (xs ! j), turl (xs ! j)]"
    using assms(3,5,6) by (rule map_of_fill_last)
  have "name \<in> set (map lfn xs)"
    using assms(3,5) by auto
  then have mem: "name \<in> set (map fst (out_dictionary (main w a)))"
    unfolding d keys_setitem keys_fill by simp
  have dist: "distinct (map fst (out_dictionary (main w a)))"
    unfolding d by (simp add: distinct_setitem distinct_fill)
  show ?thesis
    using m assms(7) mem dist
    by (simp add: d map_of_setitem_other key_count_distinct del: set_map)
qed

theorem duplicate_lfn_last_wins_witness:
  "(0::nat) < 1 \<and>
   1 < length (out_xfiles (main (world_with transfer_done) (two_files\<lparr>arg_lfns := ''f1,f1''\<rparr>))) \<and>
   lfn (out_xfiles (main (world_with transfer_done) (two_files\<lparr>arg_lfns := ''f1,f1''\<rparr>)) ! 0) = ''f1'' \<and>
   lfn (out_xfiles (main (world_with transfer_done) (two_files\<lparr>arg_lfns := ''f1,f1''\<rparr>)) ! 1) = ''f1'' \<and>
   ''f1'' \<noteq> ''error'' \<and>
   map_of (out_dictionary (main (world_with transfer_done) (two_files\<lparr>arg_lfns := ''f1,f1''\<rparr>))) ''f1''
     = Some [PStr ''done'', PInt 0, PStr ''g2''] \<and>
   key_count (out_dictionary (main (world_with transfer_done) (two_files\<lparr>arg_lfns := ''f1,f1''\<rparr>)))
     ''f1'' = 1"
proof -
  let ?w = "world_with transfer_done"
  let ?a = "two_files\<lparr>arg_lfns := ''f1,f1''\<rparr>"
  let ?xs = "out_xfiles (main ?w ?a)"
  have len: "length ?xs = 2" by code_simp
  have h1: "(0::nat) < 1" by simp
  have h2: "1 < length ?xs" using len by simp
  have h3: "lfn (?xs ! 0) = ''f1''" by code_simp
  have h4: "lfn (?xs ! 1) = ''f1''" by code_simp
  have h5: "\<forall>k. 1 < k \<and> k < length ?xs \<longrightarrow> lfn (?xs ! k) \<noteq> ''f1''"
  proof (intro allI impI)
    fix k
    assume "1 < k \<and> k < length ?xs"
    with len have False by arith
    then show "lfn (?xs ! k) \<noteq> ''f1''" ..
  qed
  have h6: "''f1'' \<noteq> ''error''" by simp
  have o: "[status (?xs ! 1), status_code (?xs ! 1), turl (?xs ! 1)] =
      [PStr ''done'', PInt 0, PStr ''g2'']"
    by code_simp
  note t = duplicate_lfn_last_wins[OF refl h1 h2 h3 h4 h5 h6]
  from t o have r: "map_of (out_dictionary (main ?w ?a)) ''f1'' =
      Some [PStr ''done'', PInt 0, PStr ''g2'']"
    by simp
  from t have c: "key_count (out_dictionary (main ?w ?a)) ''f1'' = 1"
    by (rule conjunct2)
  from h1 h2 h3 h4 h6 r c show ?thesis
    by blast
qed

text \<open>
  Claim C6 as the specification states it, for every shared name, does not hold: two
  descriptors with the logical file name \<^verbatim>\<open>error\<close> share the key of the global error
  entry, which is written last; the report then maps the name to the global error triple
  and not to the outcome of the later descriptor.
\<close>

theorem reserved_key_counterexample:
  "lfn (out_xfiles (main (world_with transfer_done) (two_files\<lparr>arg_lfns := ''error,error''\<rparr>)) ! 0) =
   lfn (out_xfiles (main (world_with transfer_done) (two_files\<lparr>arg_lfns := ''error,error''\<rparr>)) ! 1) \<and>
   [status (out_xfiles (main (world_with transfer_done) (two_files\<lparr>arg_lfns := ''error,error''\<rparr>)) ! 1),
    status_code (out_xfiles (main (world_with transfer_done) (two_files\<lparr>arg_lfns := ''error,error''\<rparr>)) ! 1),
    turl (out_xfiles (main (world_with transfer_done) (two_files\<lparr>arg_lfns := ''error,error''\<rparr>)) ! 1)]
     = [PStr ''done'', PInt 0, PStr ''g2''] \<and>
   map_of (out_dictionary (main (world_with transfer_done) (two_files\<lparr>arg_lfns := ''error,error''\<rparr>)))
     (lfn (out_xfiles (main (world_with transfer_done) (two_files\<lparr>arg_lfns := ''error,error''\<rparr>)) ! 1))
     = Some [PStr [], PInt 0, PNone]"
  by code_simp

text \<open>
  Claim C7, as the code has it. Whatever the lengths of the twelve lists, the run builds
  one descriptor for each position below the length of the shortest list, each from the
  elements at its position, and ends with exit code 0 or 12; no index is read out of
  range. The log reports a mismatch exactly when the lists of logical file names and of
  scopes differ in length; no other pair of lists is compared.
\<close>

theorem mismatched_lists_truncate:
  assumes "fl = fst (file_lists_of a)"
  shows "length (descriptors a) =
     min (length (lfns fl)) (min (length (scopes fl)) (min (length (filesizes fl))
       (min (length (checksums fl)) (min (length (allowlans fl)) (min (length (allowwans fl))
         (min (length (directaccesslans fl)) (min (length (directaccesswans fl))
           (min (length (istars fl)) (min (length (accessmodes fl))
             (min (length (storagetokens fl)) (length (guids fl)))))))))))) \<and>
   (\<forall>i < length (descriptors a). descriptors a ! i =
     \<lparr>scope = scopes fl ! i, lfn = lfns fl ! i, workdir = arg_workdir a,
      filesize = filesizes fl ! i, checksum = checksums fl ! i,
      allow_lan = allowlans fl ! i, allow_wan = allowwans fl ! i,
      direct_access_lan = directaccesslans fl ! i, guid = guids fl ! i,
      direct_access_wan = directaccesswans fl ! i, is_tar = istars fl ! i,
      accessmode = accessmodes fl ! i, storage_token = storagetokens fl ! i,
      ftype = ''input'', status = PNone, status_code = PNone, turl = PNone\<rparr>) \<and>
   filter is_length_mismatch (out_log (main w a)) =
     (if length (lfns fl) \<noteq> length (scopes fl)
      then [Lists_not_same_length (length (lfns fl)) (length (scopes fl))]
      else []) \<and>
   (out_exit_code (main w a) = 0 \<or> out_exit_code (main w a) = 12)"
proof (intro conjI)
  show "length (descriptors a) =
     min (length (lfns fl)) (min (length (scopes fl)) (min (length (filesizes fl))
       (min (length (checksums fl)) (min (length (allowlans fl)) (min (length (allowwans fl))
         (min (length (directaccesslans fl)) (min (length (directaccesswans fl))
           (min (length (istars fl)) (min (length (accessmodes fl))
             (min (length (storagetokens fl)) (length (guids fl))))))))))))"
    unfolding descriptors_def assms length_build_xfiles by (rule length_zip12)
  show "\<forall>i < length (descriptors a). descriptors a ! i =
     \<lparr>scope = scopes fl ! i, lfn = lfns fl ! i, workdir = arg_workdir a,
      filesize = filesizes fl ! i, checksum = checksums fl ! i,
      allow_lan = allowlans fl ! i, allow_wan = allowwans fl ! i,
      direct_access_lan = directaccesslans fl ! i, guid = guids fl ! i,
      direct_access_wan = directaccesswans fl ! i, is_tar = istars fl ! i,
      accessmode = accessmodes fl ! i, storage_token = storagetokens fl ! i,
      ftype = ''input'', status = PNone, status_code = PNone, turl = PNone\<rparr>"
    unfolding descriptors_def assms length_build_xfiles
    by (intro allI impI) (rule nth_build_xfiles)
  show "filter is_length_mismatch (out_log (main w a)) =
     (if length (lfns fl) \<noteq> length (scopes fl)
      then [Lists_not_same_length (length (lfns fl)) (length (scopes fl))]
      else [])"
    unfolding assms by (rule mismatch_log_main)
  show "out_exit_code (main w a) = 0 \<or> out_exit_code (main w a) = 12"
    by (simp add: out_exit_code_main)
qed

theorem mismatched_lists_truncate_witness:
  "length (lfns (fst (file_lists_of (two_files\<lparr>arg_lfns := ''f1,f2,f3''\<rparr>)))) = 3 \<and>
   length (scopes (fst (file_lists_of (two_files\<lparr>arg_lfns := ''f1,f2,f3''\<rparr>)))) = 2 \<and>
   length (descriptors (two_files\<lparr>arg_lfns := ''f1,f2,f3''\<rparr>)) = 2 \<and>
   descriptors (two_files\<lparr>arg_lfns := ''f1,f2,f3''\<rparr>) ! 1 =
     \<lparr>scope = ''mc16'', lfn = ''f2'', workdir = ''/srv/job'', filesize = None,
      checksum = ''ad:2'', allow_lan = PBool False, allow_wan = PNone,
      direct_access_lan = PBool False, guid = ''g2'',
      direct_access_wan = PStr ''maybe'', is_tar = PBool False,
      accessmode = ''direct'', storage_token = ''t2'',
      ftype = ''input'', status = PNone, status_code = PNone, turl = PNone\<rparr> \<and>
   filter is_length_mismatch
     (out_log (main (world_with transfer_done) (two_files\<lparr>arg_lfns := ''f1,f2,f3''\<rparr>))) =
     [Lists_not_same_length 3 2] \<and>
   out_exit_code (main (world_with transfer_done) (two_files\<lparr>arg_lfns := ''f1,f2,f3''\<rparr>)) = 0"
proof -
  let ?w = "world_with transfer_done"
  let ?a = "two_files\<lparr>arg_lfns := ''f1,f2,f3''\<rparr>"
  let ?fl = "fst (file_lists_of ?a)"
  note t = mismatched_lists_truncate[OF refl, of ?a ?w]
  have l1: "length (lfns ?fl) = 3" by code_simp
  have l2: "length (scopes ?fl) = 2" by code_simp
  have m: "min (length (lfns ?fl)) (min (length (scopes ?fl)) (min (length (filesizes ?fl))
       (min (length (checksums ?fl)) (min (length (allowlans ?fl)) (min (length (allowwans ?fl))
         (min (length (directaccesslans ?fl)) (min (length (directaccesswans ?fl))
           (min (length (istars ?fl)) (min (length (accessmodes ?fl))
             (min (length (storagetokens ?fl)) (length (guids ?fl)))))))))))) = 2"
    by code_simp
  from t have t1: "length (descriptors ?a) =
     min (length (lfns ?fl)) (min (length (scopes ?fl)) (min (length (filesizes ?fl))
       (min (length (checksums ?fl)) (min (length (allowlans ?fl)) (min (length (allowwans ?fl))
         (min (length (directaccesslans ?fl)) (min (length (directaccesswans ?fl))
           (min (length (istars ?fl)) (min (length (accessmodes ?fl))
             (min (length (storagetokens ?fl)) (length (guids ?fl))))))))))))"
    by (rule conjunct1)
  from t1 m have len: "length (descriptors ?a) = 2"
    by (rule trans)
  from t have t2: "\<forall>i < length (descriptors ?a). descriptors ?a ! i =
     \<lparr>scope = scopes ?fl ! i, lfn = lfns ?fl ! i, workdir = arg_workdir ?a,
      filesize = filesizes ?fl ! i, checksum = checksums ?fl ! i,
      allow_lan = allowlans ?fl ! i, allow_wan = allowwans ?fl ! i,
      direct_access_lan = directaccesslans ?fl ! i, guid = guids ?fl ! i,
      direct_access_wan = directaccesswans ?fl ! i, is_tar = istars ?fl ! i,
      accessmode = accessmodes ?fl ! i, storage_token = storagetokens ?fl ! i,
      ftype = ''input'', status = PNone, status_code = PNone, turl = PNone\<rparr>"
    by (rule conjunct1[OF conjunct2])
  from t have t3: "filter is_length_mismatch (out_log (main ?w ?a)) =
     (if length (lfns ?fl) \<noteq> length (scopes ?fl)
      then [Lists_not_same_length (length (lfns ?fl)) (length (scopes ?fl))]
      else [])"
    by (rule conjunct1[OF conjunct2[OF conjunct2]])
  have "1 < length (descriptors ?a)"
    unfolding len by simp
  with t2 have "descriptors ?a ! 1 =
     \<lparr>scope = scopes ?fl ! 1, lfn = lfns ?fl ! 1, workdir = arg_workdir ?a,
      filesize = filesizes ?fl ! 1, checksum = checksums ?fl ! 1,
      allow_lan = allowlans ?fl ! 1, allow_wan = allowwans ?fl ! 1,
      direct_access_lan = directaccesslans ?fl ! 1, guid = guids ?fl ! 1,
      direct_access_wan = directaccesswans ?fl ! 1, is_tar = istars ?fl ! 1,
      accessmode = accessmodes ?fl ! 1, storage_token = storagetokens ?fl ! 1,
      ftype = ''input'', status = PNone, status_code = PNone, turl = PNone\<rparr>"
    by blast
  also have "\<dots> =
     \<lparr>scope = ''mc16'', lfn = ''f2'', workdir = ''/srv/job'', filesize = None,
      checksum = ''ad:2'', allow_lan = PBool False, allow_wan = PNone,
      direct_access_lan = PBool False, guid = ''g2'',
      direct_access_wan = PStr ''maybe'', is_tar = PBool False,
      accessmode = ''direct'', storage_token = ''t2'',
      ftype = ''input'', status = PNone, status_code = PNone, turl = PNone\<rparr>"
    by code_simp
  finally have d1: "descriptors ?a ! 1 =
     \<lparr>scope = ''mc16'', lfn = ''f2'', workdir = ''/srv/job'', filesize = None,
      checksum = ''ad:2'', allow_lan = PBool False, allow_wan = PNone,
      direct_access_lan = PBool False, guid = ''g2'',
      direct_access_wan = PStr ''maybe'', is_tar = PBool False,
      accessmode = ''direct'', storage_token = ''t2'',
      ftype = ''input'', status = PNone, status_code = PNone, turl = PNone\<rparr>" .
  have lg: "filter is_length_mismatch (out_log (main ?w ?a)) =
     [Lists_not_same_length 3 2]"
    unfolding t3 l1 l2 by simp
  have ex: "out_exit_code (main ?w ?a) = 0" by code_simp
  from l1 l2 len d1 lg ex show ?thesis
    by blast
qed

text \<open>
  Claim C7 as the specification states it, with a log line for every mismatch, does not
  hold: with two logical file names, two scopes and one file size the lists differ in
  length, one descriptor is built, and the log has no line about a mismatch.
\<close>

theorem unlogged_mismatch_counterexample:
  "length (lfns (fst (file_lists_of (two_files\<lparr>arg_filesizes := ''10''\<rparr>)))) = 2 \<and>
   length (scopes (fst (file_lists_of (two_files\<lparr>arg_filesizes := ''10''\<rparr>)))) = 2 \<and>
   length (filesizes (fst (file_lists_of (two_files\<lparr>arg_filesizes := ''10''\<rparr>)))) = 1 \<and>
   length (descriptors (two_files\<lparr>arg_filesizes := ''10''\<rparr>)) = 1 \<and>
   filter is_length_mismatch
     (out_log (main (world_with transfer_done) (two_files\<lparr>arg_filesizes := ''10''\<rparr>))) = []"
  by code_simp

end
